theory Spec2Isabelle
  imports Main
begin

section \<open>The command framework's Command class\<close>

text \<open>
  A shallow embedding of the class \<open>Command\<close>: its constructor, \<open>permissionCheck\<close>,
  \<open>process\<close>, \<open>registerSubcommandAlias\<close>, \<open>registerSubcommand\<close> and
  \<open>unregisterSubcommand\<close>.

  Conventions of the embedding.
  \<^item> A thrown \<open>Error\<close> or \<open>TypeError\<close> is the left injection of a sum; a method that
    mutates \<open>this\<close> returns its outcome together with the object after the call, so that
    what a throwing call leaves behind is part of the model.
  \<^item> The two objects \<open>subcommands\<close> and \<open>subcommandAliases\<close> are used as dictionaries and
    only ever read by key; they are maps over their own properties. In \<open>process\<close> a
    read of a key that the object does not have itself gives the property inherited from
    \<open>Object.prototype\<close>, if the key names one (such as \<open>constructor\<close>). The three
    registration methods are modelled on the own keys alone. An assignment of \<open>undefined\<close>
    to a key is the removal of the key: a later read gives \<open>undefined\<close> either way,
    except at a key that names an inherited property, which the code would then hide and
    the model reads as inherited again.
  \<^item> The object \<open>requirements.permissions\<close> is enumerated with \<open>Object.keys\<close>; it is the
    list of its keys with their values, in the order of the keys.
  \<^item> Objects have value semantics: every call is given option objects of its own.
  \<^item> Strings are lists of characters; \<open>toLowerCase\<close> is modelled on the ASCII letters.
\<close>

subsection \<open>Errors and values\<close>

datatype error =
    InvalidGenerator \<comment> \<open>\<open>Error("Invalid command response generator")\<close>\<close>
  | InvalidGeneratorIndex nat \<comment> \<open>\<open>Error("Invalid command response generator (index " + index + ")")\<close>\<close>
  | InvalidLabel \<comment> \<open>\<open>Error("Subcommand label may not have spaces")\<close>\<close>
  | DuplicateLabel string \<comment> \<open>\<open>Error("You have already registered a subcommand for " + label)\<close>\<close>
  | UnknownLabel string \<comment> \<open>\<open>Error("No subcommand registered for " + label)\<close>\<close>
  | DuplicateAlias string \<comment> \<open>\<open>Error(`Alias ${label} already registered`)\<close>\<close>
  | TypeError \<comment> \<open>a property read on \<open>undefined\<close>\<close>

text \<open>
  What the code reads of a message: \<open>msg.author.id\<close>, \<open>msg.channel.guild\<close> (absent in a
  direct message), of the guild \<open>members.get(id).roles\<close> and \<open>roles.get(roleID).name\<close>, and
  \<open>msg.channel.permissionsOf(msg.author.id).json\<close>.
\<close>

record guild =
  members :: "string \<Rightarrow> string list option"
  roles :: "string \<Rightarrow> string option"

record message =
  author_id :: string
  channel_guild :: "guild option"
  permissions_json :: "string \<Rightarrow> bool option"

text \<open>
  The values \<open>process\<close> returns: \<open>undefined\<close>, a string, or a function (the array branch
  of the constructor returns a member of \<open>responses\<close> without calling it). A generator
  function is called with \<open>(msg, args)\<close> and may throw.
\<close>

datatype js_value =
    Undefined
  | Str string
  | Fn "message \<Rightarrow> string list \<Rightarrow> error + js_value"

type_synonym js_function = "message \<Rightarrow> string list \<Rightarrow> error + js_value"

text \<open>The \<open>generator\<close> argument: a string, an array, a function, or any other value.\<close>

datatype generator =
    GString string
  | GArray "generator list"
  | GFunction js_function
  | GOther

text \<open>The closure the constructor stores in \<open>this.execute\<close>.\<close>

datatype executor =
    ReturnResponse string \<comment> \<open>\<open>() => this.response\<close>\<close>
  | PickResponse "js_function list" \<comment> \<open>\<open>() => this.responses[Math.floor(Math.random() * this.responses.length)]\<close>\<close>
  | CallGenerator js_function \<comment> \<open>\<open>generator\<close>\<close>

subsection \<open>Options and requirements\<close>

record raw_requirements =
  opt_userIDs :: "string list option"
  opt_permissions :: "(string \<times> bool) list option"
  opt_roleIDs :: "string list option"
  opt_roleNames :: "string list option"

record options =
  opt_aliases :: "string list option"
  opt_caseInsensitive :: bool
  opt_deleteCommand :: bool
  opt_serverOnly :: bool
  opt_description :: "string option"
  opt_fullDescription :: "string option"
  opt_usage :: "string option"
  opt_requirements :: "raw_requirements option"

record requirements =
  userIDs :: "string list"
  permissions :: "(string \<times> bool) list"
  roleIDs :: "string list"
  roleNames :: "string list"

text \<open>The empty object \<open>{}\<close> that \<open>registerSubcommand\<close> takes for absent options.\<close>

definition no_options :: options where
  "no_options =
     \<lparr>opt_aliases = None, opt_caseInsensitive = False, opt_deleteCommand = False,
      opt_serverOnly = False, opt_description = None, opt_fullDescription = None,
      opt_usage = None, opt_requirements = None\<rparr>"

text \<open>\<open>s || d\<close> for a string or \<open>undefined\<close>: the empty string is falsy.\<close>

definition or_string :: "string option \<Rightarrow> string \<Rightarrow> string" where
  "or_string v d = (case v of None \<Rightarrow> d | Some s \<Rightarrow> if s = [] then d else s)"

text \<open>\<open>a || []\<close> and the four defaults of the requirements: an array or object is truthy.\<close>

definition or_empty :: "'a list option \<Rightarrow> 'a list" where
  "or_empty v = (case v of None \<Rightarrow> [] | Some xs \<Rightarrow> xs)"

definition init_requirements :: "raw_requirements option \<Rightarrow> requirements" where
  "init_requirements r =
     (case r of
        None \<Rightarrow> \<lparr>userIDs = [], permissions = [], roleIDs = [], roleNames = []\<rparr>
      | Some q \<Rightarrow>
          \<lparr>userIDs = or_empty (opt_userIDs q), permissions = or_empty (opt_permissions q),
           roleIDs = or_empty (opt_roleIDs q), roleNames = or_empty (opt_roleNames q)\<rparr>)"

subsection \<open>The Command object and its constructor\<close>

datatype command = Command
  (label: string)
  (description: string)
  (fullDescription: string)
  (usage: string)
  (aliases: "string list")
  (caseInsensitive: bool)
  (requirements: requirements)
  (deleteCommand: bool)
  (serverOnly: bool)
  (execute: executor)
  (subcommands: "string \<Rightarrow> command option")
  (subcommandAliases: "string \<Rightarrow> string option")

text \<open>
  The callback of \<open>generator.map\<close>. It tests the type of \<open>generator\<close>, the whole array, and
  not of \<open>item\<close>.
\<close>

fun response_item :: "generator \<Rightarrow> generator \<Rightarrow> nat \<Rightarrow> error + js_function" where
  "response_item (GString s) item index = Inr (\<lambda>_ _. Inr (Str s))"
| "response_item (GFunction f) item index = Inr f"
| "response_item _ item index = Inl (InvalidGeneratorIndex index)"

text \<open>\<open>Array.prototype.map\<close> with a callback that may throw: the first throw ends it.\<close>

fun map_items :: "generator \<Rightarrow> generator list \<Rightarrow> nat \<Rightarrow> error + js_function list" where
  "map_items g [] index = Inr []"
| "map_items g (item # items) index =
     (case response_item g item index of
        Inl e \<Rightarrow> Inl e
      | Inr f \<Rightarrow>
          (case map_items g items (Suc index) of
             Inl e \<Rightarrow> Inl e
           | Inr fs \<Rightarrow> Inr (f # fs)))"

definition new_command :: "string \<Rightarrow> options \<Rightarrow> executor \<Rightarrow> command" where
  "new_command l opts ex =
     Command l
       (or_string (opt_description opts) ''No description'')
       (or_string (opt_fullDescription opts) ''No full description'')
       (or_string (opt_usage opts) '''')
       (or_empty (opt_aliases opts))
       (opt_caseInsensitive opts)
       (init_requirements (opt_requirements opts))
       (opt_deleteCommand opts)
       (opt_serverOnly opts)
       ex
       Map.empty
       Map.empty"

fun constructor :: "string \<Rightarrow> generator \<Rightarrow> options \<Rightarrow> error + command" where
  "constructor l (GString s) opts = Inr (new_command l opts (ReturnResponse s))"
| "constructor l (GArray items) opts =
     (case map_items (GArray items) items 0 of
        Inl e \<Rightarrow> Inl e
      | Inr fs \<Rightarrow> Inr (new_command l opts (PickResponse fs)))"
| "constructor l (GFunction f) opts = Inr (new_command l opts (CallGenerator f))"
| "constructor l GOther opts = Inl InvalidGenerator"

text \<open>Assignments to the three properties that the methods mutate.\<close>

definition set_aliases :: "string list \<Rightarrow> command \<Rightarrow> command" where
  "set_aliases v this =
     (case this of Command l d fd u al ci rq dc so ex sc sa \<Rightarrow>
        Command l d fd u v ci rq dc so ex sc sa)"

definition set_subcommands :: "(string \<Rightarrow> command option) \<Rightarrow> command \<Rightarrow> command" where
  "set_subcommands v this =
     (case this of Command l d fd u al ci rq dc so ex sc sa \<Rightarrow>
        Command l d fd u al ci rq dc so ex v sa)"

definition set_subcommandAliases :: "(string \<Rightarrow> string option) \<Rightarrow> command \<Rightarrow> command" where
  "set_subcommandAliases v this =
     (case this of Command l d fd u al ci rq dc so ex sc sa \<Rightarrow>
        Command l d fd u al ci rq dc so ex sc v)"

subsection \<open>permissionCheck\<close>

text \<open>
  The loop over \<open>Object.keys(this.requirements.permissions)\<close>: the value of \<open>flag\<close> after
  it. \<open>!==\<close> compares the required value with the one of the actor, which may be absent.
\<close>

fun permissions_flag :: "(string \<times> bool) list \<Rightarrow> (string \<Rightarrow> bool option) \<Rightarrow> string list \<Rightarrow> bool" where
  "permissions_flag required actual [] = True"
| "permissions_flag required actual (key # keys) =
     (if map_of required key \<noteq> actual key then False
      else permissions_flag required actual keys)"

text \<open>\<open>roles.map((roleID) => msg.channel.guild.roles.get(roleID).name)\<close>\<close>

fun role_names :: "guild \<Rightarrow> string list \<Rightarrow> error + string list" where
  "role_names g [] = Inr []"
| "role_names g (roleID # rest) =
     (case roles g roleID of
        None \<Rightarrow> Inl TypeError
      | Some name \<Rightarrow>
          (case role_names g rest of
             Inl e \<Rightarrow> Inl e
           | Inr names \<Rightarrow> Inr (name # names)))"

definition permissionCheck :: "command \<Rightarrow> message \<Rightarrow> error + bool" where
  "permissionCheck this msg =
     (let req = requirements this in
      if userIDs req \<noteq> [] \<and> author_id msg \<notin> set (userIDs req) then Inr False
      else
        (case channel_guild msg of
           None \<Rightarrow> Inr (\<not> serverOnly this \<and> userIDs req = [])
         | Some g \<Rightarrow>
             if permissions req \<noteq> [] \<and>
                permissions_flag (permissions req) (permissions_json msg) (map fst (permissions req))
             then Inr True
             else
               (case members g (author_id msg) of
                  None \<Rightarrow> Inl TypeError
                | Some member_roles \<Rightarrow>
                    if roleIDs req \<noteq> [] \<and> list_ex (\<lambda>roleID. roleID \<in> set member_roles) (roleIDs req)
                    then Inr True
                    else if roleIDs req \<noteq> [] \<and> roleNames req = [] then Inr False
                    else if roleNames req \<noteq> [] then
                      (case role_names g member_roles of
                         Inl e \<Rightarrow> Inl e
                       | Inr names \<Rightarrow> Inr (list_ex (\<lambda>roleName. roleName \<in> set names) (roleNames req)))
                    else Inr True)))"

subsection \<open>process\<close>

text \<open>
  A call of \<open>this.execute(msg, args)\<close>. The argument \<open>rnd\<close> stands for the random draw:
  \<open>rnd n\<close> is the value of \<open>Math.floor(Math.random() * n)\<close> at this call. An index out of
  range reads \<open>undefined\<close>.
\<close>

fun call_execute :: "(nat \<Rightarrow> nat) \<Rightarrow> executor \<Rightarrow> message \<Rightarrow> string list \<Rightarrow> error + js_value" where
  "call_execute rnd (ReturnResponse response) msg args = Inr (Str response)"
| "call_execute rnd (PickResponse responses) msg args =
     (if rnd (length responses) < length responses
      then Inr (Fn (responses ! rnd (length responses)))
      else Inr Undefined)"
| "call_execute rnd (CallGenerator f) msg args = f msg args"

definition lower_char :: "char \<Rightarrow> char" where
  "lower_char c =
     (case map_of (zip ''ABCDEFGHIJKLMNOPQRSTUVWXYZ'' ''abcdefghijklmnopqrstuvwxyz'') c of
        None \<Rightarrow> c
      | Some lower \<Rightarrow> lower)"

definition toLowerCase :: "string \<Rightarrow> string" where
  "toLowerCase s = map lower_char s"

text \<open>
  The two tables are plain objects (\<open>{}\<close>), so a read by key falls back on
  \<open>Object.prototype\<close> where the object has no property of its own. These are the names
  it inherits (in Node.js); each holds a function, except \<open>__proto__\<close>, which reads as
  \<open>Object.prototype\<close> itself. All of them are truthy, none is \<open>undefined\<close>, none is a
  string, and none has a property \<open>process\<close> or \<open>caseInsensitive\<close>.
\<close>

definition object_prototype_keys :: "string list" where
  "object_prototype_keys =
     [''constructor'', ''__defineGetter__'', ''__defineSetter__'', ''hasOwnProperty'',
      ''__lookupGetter__'', ''__lookupSetter__'', ''isPrototypeOf'', ''propertyIsEnumerable'',
      ''toString'', ''valueOf'', ''__proto__'', ''toLocaleString'']"

text \<open>The value of \<open>table[key]\<close>: the object's own, an inherited one, or \<open>undefined\<close>.\<close>

datatype 'a property = OwnValue 'a | InheritedValue | NoValue

definition get_property :: "(string \<Rightarrow> 'a option) \<Rightarrow> string \<Rightarrow> 'a property" where
  "get_property table key =
     (case table key of
        Some v \<Rightarrow> OwnValue v
      | None \<Rightarrow> if key \<in> set object_prototype_keys then InheritedValue else NoValue)"

text \<open>
  Used as a key, an inherited value is converted to a string: \<open>String(Object)\<close> is
  \<open>function Object() { [native code] }\<close>, likewise for the other functions under their
  own names, and \<open>String(Object.prototype)\<close> is \<open>[object Object]\<close>.
\<close>

definition inherited_as_key :: "string \<Rightarrow> string" where
  "inherited_as_key key =
     (if key = ''__proto__'' then ''[object Object]''
      else if key = ''constructor'' then ''function Object() { [native code] }''
      else ''function '' @ key @ ''() { [native code] }'')"

text \<open>
  \<open>var label = this.subcommandAliases[args[0]] || args[0]\<close>: an absent or empty entry
  is falsy and leaves the token; an inherited value is truthy, and then \<open>label\<close> is that
  value and no string.
\<close>

datatype label_value =
    LabelString string
  | LabelInherited string \<comment> \<open>the value of \<open>Object.prototype[key]\<close>\<close>

definition resolve_label :: "command \<Rightarrow> string \<Rightarrow> label_value" where
  "resolve_label this arg =
     (case get_property (subcommandAliases this) arg of
        OwnValue l \<Rightarrow> if l = [] then LabelString arg else LabelString l
      | InheritedValue \<Rightarrow> LabelInherited arg
      | NoValue \<Rightarrow> LabelString arg)"

text \<open>
  The condition of the \<open>if\<close> in \<open>process\<close>, and the \<open>subcommand\<close> it leaves: a
  subcommand to descend into, or none. It throws a TypeError in two places. Where
  \<open>this.subcommands[label]\<close> is \<open>undefined\<close> and \<open>label\<close> is no string,
  \<open>label.toLowerCase()\<close> calls \<open>undefined\<close>. Where \<open>this.subcommands[label]\<close> is an
  inherited value, it differs from \<open>undefined\<close> and \<open>subcommand.process(...)\<close> calls
  \<open>undefined\<close>. An inherited value under the lower-case label has no \<open>caseInsensitive\<close>
  and is passed over.
\<close>

definition find_subcommand :: "command \<Rightarrow> string \<Rightarrow> error + command option" where
  "find_subcommand this arg =
     (case resolve_label this arg of
        LabelInherited key \<Rightarrow>
          (case get_property (subcommands this) (inherited_as_key key) of
             OwnValue subcommand \<Rightarrow> Inr (Some subcommand)
           | InheritedValue \<Rightarrow> Inl TypeError
           | NoValue \<Rightarrow> Inl TypeError)
      | LabelString l \<Rightarrow>
          (case get_property (subcommands this) l of
             OwnValue subcommand \<Rightarrow> Inr (Some subcommand)
           | InheritedValue \<Rightarrow> Inl TypeError
           | NoValue \<Rightarrow>
               (case get_property (subcommands this) (toLowerCase l) of
                  OwnValue subcommand \<Rightarrow>
                    Inr (if caseInsensitive subcommand then Some subcommand else None)
                | InheritedValue \<Rightarrow> Inr None
                | NoValue \<Rightarrow> Inr None)))"

fun process :: "(nat \<Rightarrow> nat) \<Rightarrow> command \<Rightarrow> string list \<Rightarrow> message \<Rightarrow> error + js_value" where
  "process rnd this [] msg =
     (case permissionCheck this msg of
        Inl e \<Rightarrow> Inl e
      | Inr allowed \<Rightarrow>
          if \<not> allowed then Inr Undefined
          else call_execute rnd (execute this) msg [])"
| "process rnd this (arg # rest) msg =
     (case permissionCheck this msg of
        Inl e \<Rightarrow> Inl e
      | Inr allowed \<Rightarrow>
          if \<not> allowed then Inr Undefined
          else
            (case find_subcommand this arg of
               Inl e \<Rightarrow> Inl e
             | Inr None \<Rightarrow> call_execute rnd (execute this) msg (arg # rest)
             | Inr (Some subcommand) \<Rightarrow> process rnd subcommand rest msg))"

subsection \<open>Registration\<close>

text \<open>
  A value read from \<open>subcommandAliases\<close> in a condition: \<open>undefined\<close> and the empty
  string are falsy. (A value read from \<open>subcommands\<close> is a Command object or
  \<open>undefined\<close>, and an object is truthy.)
\<close>

definition truthy :: "string option \<Rightarrow> bool" where
  "truthy v = (case v of None \<Rightarrow> False | Some s \<Rightarrow> s \<noteq> [])"

definition registerSubcommandAlias ::
    "command \<Rightarrow> string \<Rightarrow> string \<Rightarrow> (error + unit) \<times> command" where
  "registerSubcommandAlias this alias l =
     (case subcommands this l of
        None \<Rightarrow> (Inl (UnknownLabel l), this)
      | Some subcommand \<Rightarrow>
          if truthy (subcommandAliases this alias) then (Inl (DuplicateAlias l), this)
          else
            (Inr (),
             set_subcommands
               ((subcommands this)(l \<mapsto> set_aliases (aliases subcommand @ [alias]) subcommand))
               (set_subcommandAliases ((subcommandAliases this)(alias \<mapsto> l)) this)))"

text \<open>\<open>options.aliases.forEach((alias) => { this.subcommandAliases[alias] = label; })\<close>\<close>

fun record_aliases :: "string list \<Rightarrow> string \<Rightarrow> (string \<Rightarrow> string option) \<Rightarrow> (string \<Rightarrow> string option)" where
  "record_aliases [] l table = table"
| "record_aliases (alias # rest) l table = record_aliases rest l (table(alias \<mapsto> l))"

definition registerSubcommand ::
    "command \<Rightarrow> string \<Rightarrow> generator \<Rightarrow> options option \<Rightarrow> (error + command) \<times> command" where
  "registerSubcommand this l generator options =
     (if CHR '' '' \<in> set l then (Inl InvalidLabel, this)
      else if subcommands this l \<noteq> None then (Inl (DuplicateLabel l), this)
      else
        (let opts = (case options of None \<Rightarrow> no_options | Some given \<Rightarrow> given) in
         case constructor l generator opts of
           Inl e \<Rightarrow> (Inl e, this)
         | Inr subcommand \<Rightarrow>
             (Inr subcommand,
              set_subcommandAliases
                (case opt_aliases opts of
                   None \<Rightarrow> subcommandAliases this
                 | Some given \<Rightarrow> record_aliases given l (subcommandAliases this))
                (set_subcommands ((subcommands this)(l \<mapsto> subcommand)) this))))"

text \<open>\<open>xs.indexOf(x)\<close>: the first index of \<open>x\<close>, or \<open>-1\<close>.\<close>

fun indexOf :: "'a list \<Rightarrow> 'a \<Rightarrow> int" where
  "indexOf [] x = - 1"
| "indexOf (y # ys) x =
     (if y = x then 0
      else (let i = indexOf ys x in if i < 0 then - 1 else i + 1))"

text \<open>
  The array after \<open>xs.splice(start, 1)\<close>: a negative \<open>start\<close> counts from the end, so
  \<open>splice(-1, 1)\<close> removes the last element.
\<close>

definition splice1 :: "'a list \<Rightarrow> int \<Rightarrow> 'a list" where
  "splice1 xs start =
     (let n = int (length xs);
          k = (if start < 0 then max (n + start) 0 else min start n)
      in take (nat k) xs @ drop (Suc (nat k)) xs)"

definition unregisterSubcommand :: "command \<Rightarrow> string \<Rightarrow> (error + unit) \<times> command" where
  "unregisterSubcommand this l =
     (case subcommandAliases this l of
        None \<Rightarrow> (Inr (), set_subcommands ((subcommands this)(l := None)) this)
      | Some original \<Rightarrow>
          if original = [] then (Inr (), set_subcommands ((subcommands this)(l := None)) this)
          else
            (case subcommands this original of
               None \<Rightarrow> (Inl TypeError, this)
             | Some subcommand \<Rightarrow>
                 (Inr (),
                  set_subcommandAliases ((subcommandAliases this)(l := None))
                    (set_subcommands
                       ((subcommands this)
                          (original \<mapsto>
                             set_aliases
                               (splice1 (aliases subcommand) (indexOf (aliases subcommand) l))
                               subcommand))
                       this))))"

section \<open>Notions the properties are stated with\<close>

text \<open>
  The nodes \<open>process\<close> would pass through for a list of tokens if every
  \<open>permissionCheck\<close> on the way granted: the node itself, then the subcommand the first
  token selects, and so on, up to the node whose \<open>execute\<close> would be called or whose
  lookup of the next token throws.
\<close>

fun match_path :: "command \<Rightarrow> string list \<Rightarrow> command list" where
  "match_path this [] = [this]"
| "match_path this (arg # rest) =
     this # (case find_subcommand this arg of
               Inl e \<Rightarrow> []
             | Inr None \<Rightarrow> []
             | Inr (Some subcommand) \<Rightarrow> match_path subcommand rest)"

text \<open>
  The objects that the constructor and the three registration methods can build. A
  registered subcommand is itself an object that its own methods change; in the tree of
  values this replaces the entry of its parent (\<open>child_changed\<close>).
\<close>

inductive reachable :: "command \<Rightarrow> bool" where
  constructed: "constructor l generator opts = Inr this \<Longrightarrow> reachable this"
| registered: "reachable this \<Longrightarrow> reachable (snd (registerSubcommand this l generator options))"
| aliased: "reachable this \<Longrightarrow> reachable (snd (registerSubcommandAlias this alias l))"
| unregistered: "reachable this \<Longrightarrow> reachable (snd (unregisterSubcommand this l))"
| child_changed:
    "reachable this \<Longrightarrow> subcommands this l = Some child \<Longrightarrow> reachable child' \<Longrightarrow>
     reachable (set_subcommands ((subcommands this)(l \<mapsto> child')) this)"

definition labels_without_space :: "command \<Rightarrow> bool" where
  "labels_without_space this \<longleftrightarrow> (\<forall>l. subcommands this l \<noteq> None \<longrightarrow> CHR '' '' \<notin> set l)"

text \<open>
  The two invariants the specification gives for the tables of one parent. The alias
  table and the alias lists of the children agree when they hold the same pairs of an alias
  and a label. A name (a label or an alias) maps to at most one child when the children it
  names, by the key of \<open>subcommands\<close> or through \<open>subcommandAliases\<close>, are all the same one.
\<close>

definition alias_table_pairs :: "command \<Rightarrow> (string \<times> string) set" where
  "alias_table_pairs this = {(alias, l). subcommandAliases this alias = Some l}"

definition child_alias_pairs :: "command \<Rightarrow> (string \<times> string) set" where
  "child_alias_pairs this =
     {(alias, l). \<exists>child. subcommands this l = Some child \<and> alias \<in> set (aliases child)}"

definition aliases_agree :: "command \<Rightarrow> bool" where
  "aliases_agree this \<longleftrightarrow> alias_table_pairs this = child_alias_pairs this"

definition named_children :: "command \<Rightarrow> string \<Rightarrow> string set" where
  "named_children this name =
     {l. l = name \<and> subcommands this l \<noteq> None} \<union>
     {l. subcommandAliases this name = Some l \<and> subcommands this l \<noteq> None}"

definition names_unique :: "command \<Rightarrow> bool" where
  "names_unique this \<longleftrightarrow> (\<forall>name. \<exists>l. named_children this name \<subseteq> {l})"

section \<open>Example objects\<close>

text \<open>
  A direct message of alice, and a message of alice in a guild where she has no role
  and the capability \<open>manageMessages\<close> is denied to her.
\<close>

definition direct_message :: message where
  "direct_message = \<lparr>author_id = ''alice'', channel_guild = None, permissions_json = Map.empty\<rparr>"

definition guild_message :: message where
  "guild_message =
     \<lparr>author_id = ''alice'',
      channel_guild = Some \<lparr>members = [''alice'' \<mapsto> []], roles = Map.empty\<rparr>,
      permissions_json = [''manageMessages'' \<mapsto> False]\<rparr>"

text \<open>
  Option objects: \<open>{requirements: {permissions: {manageMessages: true}}}\<close>,
  \<open>{requirements: {userIDs: [user]}}\<close>, \<open>{caseInsensitive: true}\<close> and \<open>{aliases: given}\<close>.
\<close>

definition manage_only :: options where
  "manage_only =
     no_options\<lparr>opt_requirements :=
       Some \<lparr>opt_userIDs = None, opt_permissions = Some [(''manageMessages'', True)],
             opt_roleIDs = None, opt_roleNames = None\<rparr>\<rparr>"

definition only_user :: "string \<Rightarrow> options" where
  "only_user user =
     no_options\<lparr>opt_requirements :=
       Some \<lparr>opt_userIDs = Some [user], opt_permissions = None,
             opt_roleIDs = None, opt_roleNames = None\<rparr>\<rparr>"

definition insensitive :: options where
  "insensitive = no_options\<lparr>opt_caseInsensitive := True\<rparr>"

definition with_aliases :: "string list \<Rightarrow> options" where
  "with_aliases given = no_options\<lparr>opt_aliases := Some given\<rparr>"

text \<open>\<open>new Command("root", "root reply", {})\<close>, and the root after some registrations.\<close>

definition root0 :: command where
  "root0 = new_command ''root'' no_options (ReturnResponse ''root reply'')"

definition ban_root :: command where
  "ban_root = snd (registerSubcommand root0 ''ban'' (GString ''banned'') (Some (with_aliases [''b''])))"

definition role_root :: command where
  "role_root = snd (registerSubcommand root0 ''Role'' (GString ''role reply'') (Some insensitive))"

definition root_a :: command where
  "root_a =
     snd (registerSubcommand root0 ''a'' (GString ''reply a'') (Some (with_aliases [''x'', ''b''])))"

definition root_ab :: command where
  "root_ab = snd (registerSubcommand root_a ''b'' (GString ''reply b'') (Some (with_aliases [''x''])))"

definition empty_label_root :: command where
  "empty_label_root =
     snd (registerSubcommand root0 [] (GString ''reply'') (Some (with_aliases [''a''])))"

text \<open>
  A root with the subcommand \<open>admin\<close>, open to bob alone, that has the subcommand \<open>ping\<close>,
  open to all: \<open>admin = root.registerSubcommand("admin", "admin reply", {requirements:
  {userIDs: ["bob"]}}); admin.registerSubcommand("ping", "pong")\<close>.
\<close>

definition admin_node :: command where
  "admin_node =
     snd (registerSubcommand (new_command ''admin'' (only_user ''bob'') (ReturnResponse ''admin reply''))
            ''ping'' (GString ''pong'') None)"

definition admin_root :: command where
  "admin_root =
     (let root = snd (registerSubcommand root0 ''admin'' (GString ''admin reply'')
                        (Some (only_user ''bob'')))
      in set_subcommands ((subcommands root)(''admin'' \<mapsto> admin_node)) root)"

section \<open>Theorems\<close>

subsection \<open>Reading the fields\<close>

lemma aliases_set [simp]:
  "aliases (set_aliases v this) = v"
  "aliases (set_subcommands m this) = aliases this"
  "aliases (set_subcommandAliases t this) = aliases this"
  by (cases this; simp add: set_aliases_def set_subcommands_def set_subcommandAliases_def)+

lemma subcommands_set [simp]:
  "subcommands (set_aliases v this) = subcommands this"
  "subcommands (set_subcommands m this) = m"
  "subcommands (set_subcommandAliases t this) = subcommands this"
  by (cases this; simp add: set_aliases_def set_subcommands_def set_subcommandAliases_def)+

lemma subcommandAliases_set [simp]:
  "subcommandAliases (set_aliases v this) = subcommandAliases this"
  "subcommandAliases (set_subcommands m this) = subcommandAliases this"
  "subcommandAliases (set_subcommandAliases t this) = t"
  by (cases this; simp add: set_aliases_def set_subcommands_def set_subcommandAliases_def)+

lemma set_aliases_others [simp]:
  "caseInsensitive (set_aliases v this) = caseInsensitive this"
  "requirements (set_aliases v this) = requirements this"
  "serverOnly (set_aliases v this) = serverOnly this"
  "execute (set_aliases v this) = execute this"
  by (cases this; simp add: set_aliases_def)+

lemma set_subcommands_others [simp]:
  "caseInsensitive (set_subcommands m this) = caseInsensitive this"
  "requirements (set_subcommands m this) = requirements this"
  "serverOnly (set_subcommands m this) = serverOnly this"
  "execute (set_subcommands m this) = execute this"
  by (cases this; simp add: set_subcommands_def)+

lemma set_subcommandAliases_others [simp]:
  "caseInsensitive (set_subcommandAliases t this) = caseInsensitive this"
  "requirements (set_subcommandAliases t this) = requirements this"
  "serverOnly (set_subcommandAliases t this) = serverOnly this"
  "execute (set_subcommandAliases t this) = execute this"
  by (cases this; simp add: set_subcommandAliases_def)+

lemma new_command_sel [simp]:
  "aliases (new_command l opts ex) = or_empty (opt_aliases opts)"
  "caseInsensitive (new_command l opts ex) = opt_caseInsensitive opts"
  "requirements (new_command l opts ex) = init_requirements (opt_requirements opts)"
  "serverOnly (new_command l opts ex) = opt_serverOnly opts"
  "execute (new_command l opts ex) = ex"
  "subcommands (new_command l opts ex) = Map.empty"
  "subcommandAliases (new_command l opts ex) = Map.empty"
  by (simp_all add: new_command_def)

lemma permissionCheck_set [simp]:
  "permissionCheck (set_aliases v this) msg = permissionCheck this msg"
  "permissionCheck (set_subcommands m this) msg = permissionCheck this msg"
  "permissionCheck (set_subcommandAliases t this) msg = permissionCheck this msg"
  by (simp_all add: permissionCheck_def Let_def cong: option.case_cong if_cong)

lemma constructor_tables:
  "constructor l generator opts = Inr this \<Longrightarrow>
   subcommands this = Map.empty \<and> subcommandAliases this = Map.empty"
  by (cases generator) (auto split: sum.splits)

subsection \<open>The example objects\<close>

lemma no_options_sel [simp]:
  "opt_caseInsensitive no_options = False"
  "opt_aliases no_options = None"
  "opt_serverOnly no_options = False"
  "init_requirements (opt_requirements no_options) =
     \<lparr>userIDs = [], permissions = [], roleIDs = [], roleNames = []\<rparr>"
  by (simp_all add: no_options_def init_requirements_def)

lemma manage_only_sel [simp]:
  "opt_serverOnly manage_only = False"
  "init_requirements (opt_requirements manage_only) =
     \<lparr>userIDs = [], permissions = [(''manageMessages'', True)], roleIDs = [], roleNames = []\<rparr>"
  by (simp_all add: manage_only_def no_options_def init_requirements_def or_empty_def)

lemma only_user_sel [simp]:
  "opt_aliases (only_user user) = None"
  "opt_serverOnly (only_user user) = False"
  "init_requirements (opt_requirements (only_user user)) =
     \<lparr>userIDs = [user], permissions = [], roleIDs = [], roleNames = []\<rparr>"
  by (simp_all add: only_user_def no_options_def init_requirements_def or_empty_def)

lemma insensitive_sel [simp]:
  "opt_caseInsensitive insensitive"
  "opt_aliases insensitive = None"
  "opt_serverOnly insensitive = False"
  "init_requirements (opt_requirements insensitive) =
     \<lparr>userIDs = [], permissions = [], roleIDs = [], roleNames = []\<rparr>"
  by (simp_all add: insensitive_def no_options_def init_requirements_def)

lemma with_aliases_sel [simp]:
  "opt_aliases (with_aliases given) = Some given"
  "opt_caseInsensitive (with_aliases given) = False"
  "opt_serverOnly (with_aliases given) = False"
  "init_requirements (opt_requirements (with_aliases given)) =
     \<lparr>userIDs = [], permissions = [], roleIDs = [], roleNames = []\<rparr>"
  by (simp_all add: with_aliases_def no_options_def init_requirements_def)

lemma permissionCheck_direct_unrestricted:
  assumes "userIDs (requirements this) = []" and "\<not> serverOnly this"
  shows "permissionCheck this direct_message = Inr True"
  using assms by (simp add: permissionCheck_def direct_message_def)

lemma permissionCheck_guild_unrestricted:
  assumes "requirements this = \<lparr>userIDs = [], permissions = [], roleIDs = [], roleNames = []\<rparr>"
  shows "permissionCheck this guild_message = Inr True"
  using assms by (simp add: permissionCheck_def guild_message_def)

lemma root0_sel [simp]:
  "subcommands root0 = Map.empty"
  "subcommandAliases root0 = Map.empty"
  "execute root0 = ReturnResponse ''root reply''"
  "permissionCheck root0 direct_message = Inr True"
  by (simp_all add: root0_def permissionCheck_direct_unrestricted)

lemma root0_constructed:
  "constructor ''root'' (GString ''root reply'') no_options = Inr root0"
  by (simp add: root0_def)

lemma ban_root_sel [simp]:
  "subcommands ban_root =
     [''ban'' \<mapsto> new_command ''ban'' (with_aliases [''b'']) (ReturnResponse ''banned'')]"
  "subcommandAliases ban_root = [''b'' \<mapsto> ''ban'']"
  "execute ban_root = ReturnResponse ''root reply''"
  "permissionCheck ban_root direct_message = Inr True"
  by (simp_all add: ban_root_def registerSubcommand_def Let_def)

lemma role_root_sel [simp]:
  "subcommands role_root =
     [''Role'' \<mapsto> new_command ''Role'' insensitive (ReturnResponse ''role reply'')]"
  "subcommandAliases role_root = Map.empty"
  "execute role_root = ReturnResponse ''root reply''"
  "permissionCheck role_root direct_message = Inr True"
  by (simp_all add: role_root_def registerSubcommand_def Let_def)

lemma root_a_sel [simp]:
  "subcommands root_a =
     [''a'' \<mapsto> new_command ''a'' (with_aliases [''x'', ''b'']) (ReturnResponse ''reply a'')]"
  "subcommandAliases root_a = [''x'' \<mapsto> ''a'', ''b'' \<mapsto> ''a'']"
  by (simp_all add: root_a_def registerSubcommand_def Let_def)

lemma root_ab_sel [simp]:
  "subcommands root_ab =
     [''a'' \<mapsto> new_command ''a'' (with_aliases [''x'', ''b'']) (ReturnResponse ''reply a''),
      ''b'' \<mapsto> new_command ''b'' (with_aliases [''x'']) (ReturnResponse ''reply b'')]"
  "subcommandAliases root_ab = [''x'' \<mapsto> ''b'', ''b'' \<mapsto> ''a'']"
  by (auto simp add: root_ab_def registerSubcommand_def Let_def)

lemma empty_label_root_sel [simp]:
  "subcommands empty_label_root =
     [[] \<mapsto> new_command [] (with_aliases [''a'']) (ReturnResponse ''reply'')]"
  "subcommandAliases empty_label_root = [''a'' \<mapsto> []]"
  by (simp_all add: empty_label_root_def registerSubcommand_def Let_def)

lemma admin_node_sel [simp]:
  "subcommands admin_node = [''ping'' \<mapsto> new_command ''ping'' no_options (ReturnResponse ''pong'')]"
  "subcommandAliases admin_node = Map.empty"
  "requirements admin_node = \<lparr>userIDs = [''bob''], permissions = [], roleIDs = [], roleNames = []\<rparr>"
  by (simp_all add: admin_node_def registerSubcommand_def Let_def)

lemma admin_root_sel [simp]:
  "subcommands admin_root = [''admin'' \<mapsto> admin_node]"
  "subcommandAliases admin_root = Map.empty"
  "requirements admin_root = \<lparr>userIDs = [], permissions = [], roleIDs = [], roleNames = []\<rparr>"
  by (simp_all add: admin_root_def registerSubcommand_def Let_def root0_def)

subsection \<open>permissionCheck\<close>

text \<open>
  Where the only requirement is a set of capabilities, the two role blocks are skipped
  and the method ends in \<open>return true\<close>: a guild member passes whether or not the
  capabilities match.
\<close>

lemma permissionCheck_capabilities_only:
  assumes "userIDs (requirements this) = []"
      and "roleIDs (requirements this) = []"
      and "roleNames (requirements this) = []"
      and "channel_guild msg = Some g"
      and "members g (author_id msg) = Some member_roles"
  shows "permissionCheck this msg = Inr True"
  using assms by (simp add: permissionCheck_def Let_def)

text \<open>
  C1. The claim: on a node whose only requirement is the capability rule
  \<open>{manageMessages: true}\<close>, \<open>process([], ...)\<close> in a guild returns a response if and only
  if the capability \<open>manageMessages\<close> of the actor is \<open>true\<close>. The code at an actor whose
  capability is \<open>false\<close>: the node is constructed with exactly that rule, and \<open>process\<close>
  returns the response of the node.
\<close>

theorem process_capability_unmet:
  "constructor ''purge'' (GString ''purged'') manage_only =
     Inr (new_command ''purge'' manage_only (ReturnResponse ''purged'')) \<and>
   requirements (new_command ''purge'' manage_only (ReturnResponse ''purged'')) =
     \<lparr>userIDs = [], permissions = [(''manageMessages'', True)], roleIDs = [], roleNames = []\<rparr> \<and>
   channel_guild guild_message \<noteq> None \<and>
   permissions_json guild_message ''manageMessages'' = Some False \<and>
   process (\<lambda>n. 0) (new_command ''purge'' manage_only (ReturnResponse ''purged'')) [] guild_message =
     Inr (Str ''purged'')"
  by (simp add: guild_message_def permissionCheck_def)

text \<open>
  C4. In a direct message \<open>permissionCheck\<close> returns true if and only if \<open>serverOnly\<close> is
  false and \<open>requirements.userIDs\<close> is empty; in particular it denies an author whose id
  is listed in \<open>requirements.userIDs\<close>.
\<close>

theorem permissionCheck_direct:
  assumes "channel_guild msg = None"
  shows "permissionCheck this msg =
           Inr (\<not> serverOnly this \<and> userIDs (requirements this) = []) \<and>
         (author_id msg \<in> set (userIDs (requirements this)) \<longrightarrow>
            permissionCheck this msg = Inr False)"
  using assms by (auto simp: permissionCheck_def Let_def)

theorem permissionCheck_direct_witness:
  "channel_guild direct_message = None \<and>
   author_id direct_message \<in>
     set (userIDs (requirements (new_command ''secret'' (only_user ''alice'') (ReturnResponse ''ok'')))) \<and>
   permissionCheck (new_command ''secret'' (only_user ''alice'') (ReturnResponse ''ok''))
     direct_message = Inr False"
  using permissionCheck_direct
          [of direct_message "new_command ''secret'' (only_user ''alice'') (ReturnResponse ''ok'')"]
  by (simp add: direct_message_def)

subsection \<open>The constructor\<close>

text \<open>
  C2. The claim: constructing a node with a generator that is a non-empty sequence of
  members succeeds, and every call of its response generator draws one member. The code:
  the callback of \<open>generator.map\<close> tests \<open>typeof generator\<close>, which for an array is
  neither "string" nor "function", so the constructor throws at index 0 for every
  non-empty array, whatever its members are.
\<close>

theorem constructor_array_throws:
  "constructor l (GArray (item # items)) opts = Inl (InvalidGeneratorIndex 0)"
  by simp

subsection \<open>process\<close>

text \<open>
  C5. The claim: for every non-empty list of tokens whose first token is no alias and no
  matching label, \<open>process\<close> does not fail and returns what the node's own \<open>execute\<close>
  returns for the whole list. The code at the token \<open>constructor\<close>, on a root whose only
  subcommand is \<open>ban\<close> with the alias \<open>b\<close>: the token is no key of either table, in any
  letter case, and permission is granted; \<open>this.subcommandAliases["constructor"]\<close> reads
  the inherited function \<open>Object\<close>, which becomes \<open>label\<close>, and \<open>label.toLowerCase()\<close>
  throws a TypeError.
\<close>

theorem process_inherited_token_throws:
  "permissionCheck ban_root direct_message = Inr True \<and>
   subcommandAliases ban_root ''constructor'' = None \<and>
   subcommands ban_root ''constructor'' = None \<and>
   subcommands ban_root (toLowerCase ''constructor'') = None \<and>
   process (\<lambda>n. 0) ban_root [''constructor'', ''user123''] direct_message = Inl TypeError"
  by (simp add: find_subcommand_def resolve_label_def get_property_def object_prototype_keys_def
        inherited_as_key_def toLowerCase_def lower_char_def)

text \<open>
  C6. The claim: a subcommand registered with \<open>caseInsensitive\<close> true is found for a first
  token equal to its label up to letter case, for every registered label and not only
  lower-case ones. The code looks up the token as it is and then the lower-case form of
  the token; the label is never converted. For the subcommand registered as \<open>Role\<close>, the
  token \<open>Role\<close> reaches the subcommand, and the tokens \<open>ROLE\<close> and \<open>role\<close> are answered by
  the root.
\<close>

theorem process_mixed_case_label:
  "fst (registerSubcommand root0 ''Role'' (GString ''role reply'') (Some insensitive)) =
     Inr (new_command ''Role'' insensitive (ReturnResponse ''role reply'')) \<and>
   caseInsensitive (new_command ''Role'' insensitive (ReturnResponse ''role reply'')) \<and>
   process (\<lambda>n. 0) role_root [''Role''] direct_message = Inr (Str ''role reply'') \<and>
   process (\<lambda>n. 0) role_root [''ROLE''] direct_message = Inr (Str ''root reply'') \<and>
   process (\<lambda>n. 0) role_root [''role''] direct_message = Inr (Str ''root reply'')"
  by (simp add: registerSubcommand_def Let_def find_subcommand_def resolve_label_def
        get_property_def object_prototype_keys_def toLowerCase_def lower_char_def
        permissionCheck_direct_unrestricted)

text \<open>
  C9. \<open>process\<close> checks the permission at every node of the matching path: when
  \<open>permissionCheck\<close> denies at a node of the path, the root or a subcommand the tokens
  lead to, and no check before it throws, \<open>process\<close> returns \<open>undefined\<close>, whatever the
  requirements of the nodes after it are.
\<close>

theorem process_denied_on_path:
  assumes "match_path this args = before @ node # after"
      and "\<forall>n \<in> set before. \<exists>b. permissionCheck n msg = Inr b"
      and "permissionCheck node msg = Inr False"
  shows "process rnd this args msg = Inr Undefined"
  using assms
proof (induction args arbitrary: this before)
  case Nil
  then have "node = this" by (cases before) auto
  with Nil show ?case by simp
next
  case (Cons arg rest)
  note path = Cons.prems(1) and checked = Cons.prems(2) and denied = Cons.prems(3)
  note hyp = Cons.IH
  show ?case
  proof (cases before)
    case Nil
    with path have "node = this" by simp
    with denied show ?thesis by simp
  next
    case (Cons first earlier)
    with path have first: "first = this"
      and tail: "(case find_subcommand this arg of
                    Inl e \<Rightarrow> []
                  | Inr None \<Rightarrow> []
                  | Inr (Some s) \<Rightarrow> match_path s rest) = earlier @ node # after"
      by auto
    from checked Cons first obtain b where b: "permissionCheck this msg = Inr b"
      by auto
    show ?thesis
    proof (cases b)
      case False
      with b show ?thesis by simp
    next
      case True
      from tail obtain s where s: "find_subcommand this arg = Inr (Some s)"
        and sub_path: "match_path s rest = earlier @ node # after"
        by (auto split: sum.splits option.splits)
      from checked Cons have "\<forall>n \<in> set earlier. \<exists>b. permissionCheck n msg = Inr b"
        by simp
      then have "process rnd s rest msg = Inr Undefined"
        using hyp sub_path denied by blast
      with b True s show ?thesis by simp
    qed
  qed
qed

theorem process_denied_on_path_witness:
  "match_path admin_root [''admin'', ''ping''] =
     [admin_root] @ admin_node # [new_command ''ping'' no_options (ReturnResponse ''pong'')] \<and>
   permissionCheck admin_root guild_message = Inr True \<and>
   permissionCheck admin_node guild_message = Inr False \<and>
   permissionCheck (new_command ''ping'' no_options (ReturnResponse ''pong'')) guild_message =
     Inr True \<and>
   process (\<lambda>n. 0) admin_root [''admin'', ''ping''] guild_message = Inr Undefined"
proof -
  have path: "match_path admin_root [''admin'', ''ping''] =
      [admin_root] @ admin_node # [new_command ''ping'' no_options (ReturnResponse ''pong'')]"
    by (simp add: find_subcommand_def resolve_label_def get_property_def
          object_prototype_keys_def)
  have root: "permissionCheck admin_root guild_message = Inr True"
    by (simp add: permissionCheck_guild_unrestricted)
  have admin: "permissionCheck admin_node guild_message = Inr False"
    by (simp add: permissionCheck_def guild_message_def)
  have ping: "permissionCheck (new_command ''ping'' no_options (ReturnResponse ''pong''))
      guild_message = Inr True"
    by (simp add: permissionCheck_guild_unrestricted)
  from root have checked: "\<forall>n \<in> set [admin_root]. \<exists>b. permissionCheck n guild_message = Inr b"
    by auto
  from process_denied_on_path [OF path checked admin] path root admin ping
  show ?thesis by simp
qed

subsection \<open>Registration\<close>

lemma registerSubcommand_labels:
  "labels_without_space this \<Longrightarrow>
   labels_without_space (snd (registerSubcommand this l generator options))"
  by (auto simp: labels_without_space_def registerSubcommand_def Let_def split: sum.splits)

lemma registerSubcommandAlias_labels:
  "labels_without_space this \<Longrightarrow>
   labels_without_space (snd (registerSubcommandAlias this alias l))"
  by (auto simp: labels_without_space_def registerSubcommandAlias_def split: option.splits)

lemma unregisterSubcommand_labels:
  "labels_without_space this \<Longrightarrow> labels_without_space (snd (unregisterSubcommand this l))"
  by (auto simp: labels_without_space_def unregisterSubcommand_def split: option.splits)

text \<open>No object that the methods build has a subcommand under a label with a space.\<close>

lemma reachable_labels: "reachable this \<Longrightarrow> labels_without_space this"
proof (induction rule: reachable.induct)
  case (constructed l generator opts this)
  then show ?case by (simp add: labels_without_space_def constructor_tables)
next
  case (child_changed this l child child')
  then show ?case by (auto simp: labels_without_space_def)
qed (simp_all add: registerSubcommand_labels registerSubcommandAlias_labels
       unregisterSubcommand_labels)

lemma ban_root_reachable: "reachable ban_root"
  unfolding ban_root_def
  by (rule reachable.registered) (rule reachable.constructed [OF root0_constructed])

text \<open>The invariants on the way to the state of the theorem for C3.\<close>

lemma root0_invariants: "names_unique root0 \<and> aliases_agree root0"
  by (simp add: names_unique_def named_children_def aliases_agree_def alias_table_pairs_def
        child_alias_pairs_def)

lemma root_a_agree: "aliases_agree root_a"
  by (auto simp add: aliases_agree_def alias_table_pairs_def child_alias_pairs_def or_empty_def
        split: if_splits)

lemma root_a_unique: "names_unique root_a"
  unfolding names_unique_def named_children_def
  by (auto simp: or_empty_def split: if_splits intro!: exI [of _ "''a''"])

lemma root_ab_not_agree: "\<not> aliases_agree root_ab"
proof
  assume "aliases_agree root_ab"
  then have "alias_table_pairs root_ab = child_alias_pairs root_ab"
    by (simp add: aliases_agree_def)
  moreover have "(''x'', ''a'') \<in> child_alias_pairs root_ab"
    by (simp add: child_alias_pairs_def or_empty_def)
  ultimately have "(''x'', ''a'') \<in> alias_table_pairs root_ab"
    by simp
  then show False
    by (simp add: alias_table_pairs_def)
qed

lemma root_ab_not_unique: "\<not> names_unique root_ab"
proof
  assume "names_unique root_ab"
  then obtain l where "named_children root_ab ''b'' \<subseteq> {l}"
    unfolding names_unique_def by blast
  moreover have "''b'' \<in> named_children root_ab ''b''" "''a'' \<in> named_children root_ab ''b''"
    by (simp_all add: named_children_def)
  ultimately show False by auto
qed

text \<open>
  C3. The claim: every sequence of registrations keeps, within one parent, each label and
  alias mapped to at most one child, and the alias table of the parent equal to the alias
  lists of the children. The code: \<open>registerSubcommand\<close> writes the aliases of its options
  into the table without the check that \<open>registerSubcommandAlias\<close> makes. From a root
  with empty tables, \<open>registerSubcommand("a", ..., {aliases: ["x", "b"]})\<close> keeps both
  invariants, and \<open>registerSubcommand("b", ..., {aliases: ["x"]})\<close> succeeds and breaks
  both: the name \<open>b\<close> is the label of one child and an alias of the other, and \<open>x\<close> stays
  in the alias list of \<open>a\<close> while the table maps it to \<open>b\<close>.
\<close>

theorem registration_breaks_invariants:
  "names_unique root0 \<and> aliases_agree root0 \<and>
   fst (registerSubcommand root0 ''a'' (GString ''reply a'') (Some (with_aliases [''x'', ''b'']))) =
     Inr (new_command ''a'' (with_aliases [''x'', ''b'']) (ReturnResponse ''reply a'')) \<and>
   names_unique root_a \<and> aliases_agree root_a \<and>
   fst (registerSubcommand root_a ''b'' (GString ''reply b'') (Some (with_aliases [''x'']))) =
     Inr (new_command ''b'' (with_aliases [''x'']) (ReturnResponse ''reply b'')) \<and>
   \<not> names_unique root_ab \<and> \<not> aliases_agree root_ab"
  using root0_invariants root_a_agree root_a_unique root_ab_not_agree root_ab_not_unique
  by (simp add: registerSubcommand_def Let_def)

text \<open>
  C7, as amended. For every label that contains a space character, \<open>registerSubcommand\<close>
  throws the error of an invalid label and leaves the object as it was.
\<close>

theorem registerSubcommand_space:
  assumes "CHR '' '' \<in> set l"
  shows "registerSubcommand this l generator options = (Inl InvalidLabel, this)"
  using assms by (simp add: registerSubcommand_def)

theorem registerSubcommand_space_witness:
  "CHR '' '' \<in> set ''ban user'' \<and>
   registerSubcommand root0 ''ban user'' (GString ''banned'') None = (Inl InvalidLabel, root0)"
  using registerSubcommand_space [of "''ban user''" root0 "GString ''banned''" None]
  by simp

text \<open>
  C7, as stated, fails for whitespace other than the space: \<open>label.includes(" ")\<close> looks
  for the space character alone, and a label with a tab (character 9) is registered.
\<close>

theorem registerSubcommand_tab_accepted:
  "fst (registerSubcommand root0 [CHR ''a'', CHR 0x09, CHR ''b''] (GString ''reply'') None) =
     Inr (new_command [CHR ''a'', CHR 0x09, CHR ''b''] no_options (ReturnResponse ''reply'')) \<and>
   subcommands (snd (registerSubcommand root0 [CHR ''a'', CHR 0x09, CHR ''b''] (GString ''reply'') None))
     [CHR ''a'', CHR 0x09, CHR ''b''] =
     Some (new_command [CHR ''a'', CHR 0x09, CHR ''b''] no_options (ReturnResponse ''reply''))"
  by (simp add: registerSubcommand_def Let_def)

text \<open>
  C8. For every object the methods can build and every label that is a key of its
  \<open>subcommands\<close>, \<open>registerSubcommand\<close> throws the error of a duplicate label, and the
  object after the call, with all its tables and those of its descendants, is the object
  before the call.
\<close>

theorem registerSubcommand_duplicate:
  assumes "reachable this" and "subcommands this l = Some child"
  shows "registerSubcommand this l generator options = (Inl (DuplicateLabel l), this)"
proof -
  from assms have "CHR '' '' \<notin> set l"
    using reachable_labels by (auto simp: labels_without_space_def)
  with assms(2) show ?thesis
    by (simp add: registerSubcommand_def)
qed

theorem registerSubcommand_duplicate_witness:
  "reachable ban_root \<and>
   subcommands ban_root ''ban'' =
     Some (new_command ''ban'' (with_aliases [''b'']) (ReturnResponse ''banned'')) \<and>
   registerSubcommand ban_root ''ban'' (GString ''again'') None =
     (Inl (DuplicateLabel ''ban''), ban_root)"
proof -
  have child: "subcommands ban_root ''ban'' =
      Some (new_command ''ban'' (with_aliases [''b'']) (ReturnResponse ''banned''))"
    by simp
  from registerSubcommand_duplicate [OF ban_root_reachable child] ban_root_reachable child
  show ?thesis by simp
qed

text \<open>
  C10, as amended. For a parent with a subcommand under a non-empty label \<open>l\<close> that is not
  itself a key of \<open>subcommandAliases\<close>, and an alias mapped to \<open>l\<close>: \<open>unregisterSubcommand(l)\<close>
  removes the subcommand and keeps the entry of the alias, and a following
  \<open>unregisterSubcommand(alias)\<close> throws a TypeError and changes nothing.
\<close>

theorem unregister_label_then_alias:
  assumes "subcommands this l = Some child"
      and "subcommandAliases this alias = Some l"
      and "subcommandAliases this l = None"
      and "l \<noteq> []"
  shows "fst (unregisterSubcommand this l) = Inr () \<and>
         subcommands (snd (unregisterSubcommand this l)) l = None \<and>
         subcommandAliases (snd (unregisterSubcommand this l)) alias = Some l \<and>
         unregisterSubcommand (snd (unregisterSubcommand this l)) alias =
           (Inl TypeError, snd (unregisterSubcommand this l))"
  using assms by (simp add: unregisterSubcommand_def)

theorem unregister_label_then_alias_witness:
  "subcommands ban_root ''ban'' =
     Some (new_command ''ban'' (with_aliases [''b'']) (ReturnResponse ''banned'')) \<and>
   subcommandAliases ban_root ''b'' = Some ''ban'' \<and>
   subcommandAliases ban_root ''ban'' = None \<and>
   subcommandAliases (snd (unregisterSubcommand ban_root ''ban'')) ''b'' = Some ''ban'' \<and>
   unregisterSubcommand (snd (unregisterSubcommand ban_root ''ban'')) ''b'' =
     (Inl TypeError, snd (unregisterSubcommand ban_root ''ban''))"
  using unregister_label_then_alias
          [of ban_root "''ban''"
              "new_command ''ban'' (with_aliases [''b'']) (ReturnResponse ''banned'')" "''b''"]
  by simp

text \<open>
  C10, as stated, fails for the empty label: the alias table then holds the empty string,
  which is falsy, so the second call takes the other branch and ends without an error.
\<close>

theorem unregister_empty_label_no_error:
  "subcommands empty_label_root [] =
     Some (new_command [] (with_aliases [''a'']) (ReturnResponse ''reply'')) \<and>
   subcommandAliases empty_label_root ''a'' = Some [] \<and>
   subcommandAliases empty_label_root [] = None \<and>
   fst (unregisterSubcommand empty_label_root []) = Inr () \<and>
   subcommandAliases (snd (unregisterSubcommand empty_label_root [])) ''a'' = Some [] \<and>
   fst (unregisterSubcommand (snd (unregisterSubcommand empty_label_root [])) ''a'') = Inr ()"
  by (simp add: unregisterSubcommand_def)

end
